theory Spec2Isabelle
  imports Complex_Main
begin

section \<open>Numbers, dates and the two libraries\<close>

text \<open>
  The program is \<^verbatim>\<open>src/transaction-collection.js\<close>. Its amounts are JavaScript
  numbers, that is IEEE-754 binary64 values. A finite double is modelled by the rational
  it denotes, and every arithmetic operation rounds its exact result to the nearest
  double, ties to even (\<open>fl\<close>). The exponent range is not bounded: overflow to
  Infinity, subnormal results, NaN and the sign of zero are outside the model.
  \<open>null\<close> and \<open>undefined\<close> are \<open>None\<close>.
\<close>

definition pow2 :: "int \<Rightarrow> rat" where
  "pow2 e = (if 0 \<le> e then 2 ^ nat e else 1 / 2 ^ nat (- e))"

function bitlen :: "int \<Rightarrow> int" where
  "bitlen a = (if 0 < a then bitlen (a div 2) + 1 else 0)"
  by pat_completeness auto
termination
  by (relation "measure nat") auto

declare bitlen.simps [simp del]

text \<open>For \<open>x > 0\<close>, \<open>binade x\<close> is the exponent \<open>e\<close> with \<open>2^e \<le> x < 2^(e+1)\<close>.\<close>

definition binade :: "rat \<Rightarrow> int" where
  "binade x = (case quotient_of x of (p, q) \<Rightarrow>
     (let k = bitlen p - bitlen q
      in if pow2 k \<le> x then k else k - 1))"

definition round_half_even :: "rat \<Rightarrow> int" where
  "round_half_even x = (let f = \<lfloor>x\<rfloor>; r = x - of_int f
     in if r < 1 / 2 then f else if 1 / 2 < r then f + 1 else if even f then f else f + 1)"

text \<open>Rounding to 53 significant bits.\<close>

definition fl :: "rat \<Rightarrow> rat" where
  "fl x = (if x = 0 then 0 else
     (let u = pow2 (binade \<bar>x\<bar> - 52)
      in sgn x * of_int (round_half_even (\<bar>x\<bar> / u)) * u))"

definition js_add :: "rat \<Rightarrow> rat \<Rightarrow> rat" where
  "js_add a b = fl (a + b)"

definition js_sub :: "rat \<Rightarrow> rat \<Rightarrow> rat" where
  "js_sub a b = fl (a - b)"

definition js_mul :: "rat \<Rightarrow> rat \<Rightarrow> rat" where
  "js_mul a b = fl (a * b)"

text \<open>The only division of the source is by the constant 100.\<close>

definition js_div :: "rat \<Rightarrow> rat \<Rightarrow> rat" where
  "js_div a b = fl (a / b)"

text \<open>ToNumber on a number or \<open>null\<close>: \<open>null\<close> is 0.\<close>

definition to_number :: "rat option \<Rightarrow> rat" where
  "to_number v = (case v of None \<Rightarrow> 0 | Some a \<Rightarrow> a)"

text \<open>
  Truthiness, as the constructor's \<^verbatim>\<open>blob.f ? blob.f : null\<close> tests it: a number is
  falsy when it is 0, a string when it is empty, and an absent field always.
\<close>

definition truthy_num :: "rat option \<Rightarrow> rat option" where
  "truthy_num v = (case v of None \<Rightarrow> None | Some a \<Rightarrow> if a = 0 then None else Some a)"

definition truthy_str :: "string option \<Rightarrow> string option" where
  "truthy_str v = (case v of None \<Rightarrow> None | Some s \<Rightarrow> if s = [] then None else Some s)"

text \<open>
  lodash 3's \<^verbatim>\<open>_.sum(collection, iteratee)\<close> (the library is not part of the
  repository): it starts from 0 and walks the array from its last element to its first,
  adding \<^verbatim>\<open>+iteratee(value) || 0\<close>.
\<close>

definition lodash_sum :: "rat option list \<Rightarrow> rat" where
  "lodash_sum vs = foldr (\<lambda>v result. js_add result (to_number v)) vs 0"

text \<open>
  Dates have whole-day granularity: a \<^verbatim>\<open>Date\<close> is the number of days since
  1970-01-01, so that the comparison of a date with \<open>null\<close> (which JavaScript reads
  as 0 milliseconds) is the comparison of its day number with 0. A moment is
  \<open>Some day\<close>, or \<open>None\<close> when it is invalid.

  \<open>dateval\<close> is what the \<open>startDate\<close> and \<open>endDate\<close> properties of the object passed
  as \<open>bounds\<close> can hold; \<open>PlainObject\<close> is an object that is neither a Date nor a
  moment and has none of moment's unit keys.
\<close>

datatype dateval = UndefinedV | NullV | DateV int | PlainObject

record bounds =
  b_startDate :: dateval
  b_endDate :: dateval

text \<open>
  What moment.js and moment-range do is outside the repository. Three of their answers
  are parameters: the current day (\<^verbatim>\<open>moment(undefined)\<close>), the moment made from a
  plain object, and the dates that a range visits when it is walked by months.
\<close>

record momentlib =
  now_day :: int
  plain_object_day :: "int option"
  by_months :: "int \<Rightarrow> int \<Rightarrow> int list"

definition moment :: "momentlib \<Rightarrow> dateval \<Rightarrow> int option" where
  "moment L v = (case v of
       UndefinedV \<Rightarrow> Some (now_day L)
     | NullV \<Rightarrow> None
     | DateV d \<Rightarrow> Some d
     | PlainObject \<Rightarrow> plain_object_day L)"

text \<open>\<^verbatim>\<open>a < b\<close> on two values that are a Date or \<open>null\<close>.\<close>

definition date_lt :: "int option \<Rightarrow> int option \<Rightarrow> bool" where
  "date_lt a b = ((case a of None \<Rightarrow> 0 | Some d \<Rightarrow> d) < (case b of None \<Rightarrow> 0 | Some d \<Rightarrow> d))"

section \<open>The transaction tree\<close>

text \<open>
  The own properties of a Transaction object that hold plain data. \<open>ident\<close> is the
  identity of the object and \<open>parentTransaction\<close> the identity of the object it refers
  to. The property \<^verbatim>\<open>scenarios\<close> is read by none of the functions below and is left
  out.
\<close>

record txn_props =
  ident :: nat
  depth :: int
  growth :: "rat option"
  description :: "string option"
  amount :: "rat option"
  startDate :: "int option"
  endDate :: "int option"
  frequency :: string
  transactionType :: string
  series :: string
  parentTransaction :: "nat option"

text \<open>
  The stash \<^verbatim>\<open>this.transactionSeries\<close>. \<open>s_bounds\<close> is the identity of the bounds
  object: the source compares it with \<^verbatim>\<open>===\<close>. The stashed \<open>startDate\<close> is a Date
  object compared with \<^verbatim>\<open>===\<close> too; no function of the repository changes a Date in
  place, and equality of the day stands for it.
\<close>

record stash =
  txns :: "txn_props list"
  s_amount :: "rat option"
  s_growth :: "rat option"
  s_frequency :: string
  s_startDate :: "int option"
  s_bounds :: nat

text \<open>
  A node owns its children: \<^verbatim>\<open>addChild\<close> is the only function that extends a
  \<^verbatim>\<open>children\<close> array, and it always pushes a Transaction it has just constructed, so
  the objects reachable through \<^verbatim>\<open>children\<close> form a tree, and a node stands in the
  \<open>children\<close> of the node its \<open>parentTransaction\<close> names.
\<close>

datatype transaction =
  Node (props: txn_props) (transactionSeries: "stash option")
       (accumulator: "txn_props list") (children: "transaction list")

text \<open>
  A definition object (\<^verbatim>\<open>blob\<close>); \<open>None\<close> is an absent field. A Transaction passed
  where a blob is expected is read through the same eight properties.
\<close>

record blob =
  blob_growth :: "rat option"
  blob_description :: "string option"
  blob_amount :: "rat option"
  blob_startDate :: "int option"
  blob_endDate :: "int option"
  blob_frequency :: "string option"
  blob_transactionType :: "string option"
  blob_series :: "string option"

definition empty_blob :: blob where
  "empty_blob = \<lparr>blob_growth = None, blob_description = None, blob_amount = None,
     blob_startDate = None, blob_endDate = None, blob_frequency = None,
     blob_transactionType = None, blob_series = None\<rparr>"

definition as_blob :: "txn_props \<Rightarrow> blob" where
  "as_blob p = \<lparr>blob_growth = growth p, blob_description = description p,
     blob_amount = amount p, blob_startDate = startDate p, blob_endDate = endDate p,
     blob_frequency = Some (frequency p), blob_transactionType = Some (transactionType p),
     blob_series = Some (series p)\<rparr>"

text \<open>
  \<^verbatim>\<open>new Transaction(blob)\<close>. The pair \<open>(i, uuid)\<close> is what the allocation supplies:
  the identity of the new object and the string \<^verbatim>\<open>generateUUID()\<close> returns.
\<close>

definition new_Transaction :: "nat \<times> string \<Rightarrow> blob option \<Rightarrow> transaction" where
  "new_Transaction alloc blob_arg =
     (let blob = (case blob_arg of None \<Rightarrow> empty_blob | Some b \<Rightarrow> b)
      in Node \<lparr>ident = fst alloc,
               depth = - 1,
               growth = truthy_num (blob_growth blob),
               description = truthy_str (blob_description blob),
               amount = truthy_num (blob_amount blob),
               startDate = blob_startDate blob,
               endDate = blob_endDate blob,
               frequency = (case truthy_str (blob_frequency blob) of
                              None \<Rightarrow> ''none'' | Some f \<Rightarrow> f),
               transactionType = (case truthy_str (blob_transactionType blob) of
                              None \<Rightarrow> ''plain'' | Some f \<Rightarrow> f),
               series = (case truthy_str (blob_series blob) of
                              None \<Rightarrow> snd alloc | Some s \<Rightarrow> s),
               parentTransaction = None\<rparr>
           None [] [])"

text \<open>
  \<^verbatim>\<open>getAmount\<close> returns the amount and leaves the object, and every descendant it
  visited, updated.
\<close>

fun getAmount :: "transaction \<Rightarrow> rat option \<times> transaction" where
  "getAmount (Node p st acc cs) =
     (if length cs > 0 then
        (let rs = map getAmount cs;
             s = lodash_sum (map fst rs)
         in (Some s, Node (p\<lparr>amount := Some s\<rparr>) st acc (map snd rs)))
      else (amount p, Node p st acc cs))"

text \<open>
  \<^verbatim>\<open>setAmount(amount)\<close>. Its last statement is
  \<^verbatim>\<open>if (this.parent) { this.parent.setAmount(); }\<close>: no constructor and no function
  of the repository defines a property \<^verbatim>\<open>parent\<close> (the back-reference is
  \<^verbatim>\<open>parentTransaction\<close>), so the test reads \<open>undefined\<close> and the call never runs.
\<close>

definition setAmount :: "rat option \<Rightarrow> transaction \<Rightarrow> transaction" where
  "setAmount amount_arg this =
     (case this of Node p st acc cs \<Rightarrow>
        if length cs > 0 then
          (let rs = map getAmount cs
           in Node (p\<lparr>amount := Some (lodash_sum (map fst rs))\<rparr>) st acc (map snd rs))
        else Node (p\<lparr>amount := amount_arg\<rparr>) st acc cs)"

text \<open>
  \<^verbatim>\<open>addChild(blob)\<close>. The test \<^verbatim>\<open>blob.constructor !== 'Transaction'\<close> compares a
  function with a string and always holds, so a new Transaction is constructed every
  time. The result is the new child and the updated \<open>this\<close>.
\<close>

definition addChild :: "nat \<times> string \<Rightarrow> blob \<Rightarrow> transaction \<Rightarrow> transaction \<times> transaction" where
  "addChild alloc blob this =
     (case new_Transaction alloc (Some blob) of Node q qst qacc qcs \<Rightarrow>
        (let newChild = Node (q\<lparr>parentTransaction := Some (ident (props this)),
                                 depth := depth (props this) + 1\<rparr>) qst qacc qcs;
             pushed = Node (props this) (transactionSeries this) (accumulator this)
                        (children this @ [newChild])
         in (newChild, setAmount None pushed)))"

text \<open>
  A method call on the object with identity \<open>target\<close> inside a tree: the object is
  replaced by what the method leaves of it.
\<close>

fun at_node :: "nat \<Rightarrow> (transaction \<Rightarrow> transaction) \<Rightarrow> transaction \<Rightarrow> transaction" where
  "at_node target f (Node p st acc cs) =
     (if ident p = target then f (Node p st acc cs)
      else Node p st acc (map (at_node target f) cs))"

section \<open>Recurrence expansion\<close>

datatype error = Error string | TypeError | OutsideModel

text \<open>
  \<open>Error\<close> is a thrown \<^verbatim>\<open>new Error(message)\<close> and \<open>TypeError\<close> the reading of a
  property of \<open>null\<close> or \<open>undefined\<close>. \<open>OutsideModel\<close> is no exception: JavaScript
  goes on with an Invalid Date or NaN, which this model does not follow.

  moment-range's \<^verbatim>\<open>by(unit, callback)\<close> starts at the range's start and adds one
  unit while the range contains the current moment; here a unit is a positive number of
  days (7 for weeks, 1 for days).
\<close>

function by_string :: "int \<Rightarrow> int \<Rightarrow> int \<Rightarrow> int list" where
  "by_string step current e =
     (if 0 < step \<and> current \<le> e then current # by_string step (current + step) e else [])"
  by pat_completeness auto
termination
  by (relation "measure (\<lambda>(step, current, e). nat (e - current + 1))") auto

declare by_string.simps [simp del]

text \<open>
  \<^verbatim>\<open>by(range, callback)\<close> with a range as the interval: \<open>l\<close> is the floor of the
  quotient of the two lengths, and the dates are \<open>start + interval * i\<close> for
  \<open>i = 0, ..., l\<close>.
\<close>

definition by_range :: "int \<Rightarrow> int \<Rightarrow> int \<Rightarrow> int list" where
  "by_range interval s e = map (\<lambda>i. s + interval * i) [0..(e - s) div interval]"

text \<open>A range with an invalid end contains nothing and has no length.\<close>

definition walk :: "(int \<Rightarrow> int \<Rightarrow> int list) \<Rightarrow> int option \<Rightarrow> int option \<Rightarrow> int list" where
  "walk f start e = (case start of None \<Rightarrow> [] | Some s \<Rightarrow> (case e of None \<Rightarrow> [] | Some e' \<Rightarrow> f s e'))"

definition generateRepeatDates ::
  "momentlib \<Rightarrow> string \<Rightarrow> int option \<Rightarrow> int option \<Rightarrow> error + int list" where
  "generateRepeatDates L freq start e =
     (if freq \<notin> set [''none'', ''month'', ''week'', ''biweek'', ''day''] then
        Inl (Error ''Frequency must be none, day, week, biweek, or month.'')
      else if freq = ''month'' then Inr (walk (by_months L) start e)
      else if freq = ''week'' then Inr (walk (by_string 7) start e)
      else if freq = ''biweek'' then Inr (walk (by_range 14) start e)
      else if freq = ''day'' then Inr (walk (by_string 1) start e)
      else Inr [])"

text \<open>
  The loop \<^verbatim>\<open>for (i = 1; i < repeatTxns.length; i++)\<close> that sets
  \<^verbatim>\<open>repeatTxns[i].amount = repeatTxns[i - 1].amount * (1 + (txn.growth / 100))\<close>.
\<close>

function growth_loop :: "rat option \<Rightarrow> nat \<Rightarrow> txn_props list \<Rightarrow> txn_props list" where
  "growth_loop g i repeatTxns =
     (if i < length repeatTxns then
        growth_loop g (i + 1)
          (repeatTxns[i := (repeatTxns ! i)\<lparr>amount :=
             Some (js_mul (to_number (amount (repeatTxns ! (i - 1))))
                          (js_add 1 (js_div (to_number g) 100)))\<rparr>])
      else repeatTxns)"
  by pat_completeness auto
termination
  by (relation "measure (\<lambda>(g, i, repeatTxns). length repeatTxns - i)") auto

declare growth_loop.simps [simp del]

text \<open>
  \<^verbatim>\<open>initRepeatTransactions\<close> returns the transaction itself when it does not repeat,
  and an array otherwise.
\<close>

datatype expansion = Single txn_props | Many "txn_props list"

text \<open>The test that returns the stashed series.\<close>

definition stash_hit :: "stash option \<Rightarrow> txn_props \<Rightarrow> nat \<Rightarrow> bool" where
  "stash_hit st txn b =
     (case st of None \<Rightarrow> False
      | Some s \<Rightarrow> s_amount s = amount txn \<and> s_growth s = growth txn \<and>
                  s_frequency s = frequency txn \<and> s_startDate s = startDate txn \<and>
                  s_bounds s = b)"

text \<open>
  The lines after the test: the dates, one clone of \<open>txn\<close> for each, and the growth.
  The condition \<^verbatim>\<open>txn.growth !== 0 || txn.growth\<close> fails for the number 0 only.
  \<^verbatim>\<open>_.clone\<close> copies the own properties of \<open>txn\<close>; an occurrence is the record of
  the plain ones, and its \<open>ident\<close> says which definition it was cloned from.
\<close>

definition expand :: "momentlib \<Rightarrow> bounds \<Rightarrow> txn_props \<Rightarrow> error + txn_props list" where
  "expand L bnds txn =
     (let start = startDate txn;
          e = (case endDate txn of None \<Rightarrow> moment L (b_endDate bnds) | Some d \<Rightarrow> Some d)
      in case generateRepeatDates L (frequency txn) start e of
           Inl err \<Rightarrow> Inl err
         | Inr dates \<Rightarrow>
             (let repeatTxns = map (\<lambda>m. txn\<lparr>startDate := Some m, endDate := None,
                                               frequency := ''none'', series := series txn\<rparr>) dates
              in Inr (if growth txn \<noteq> Some 0 then growth_loop (growth txn) 1 repeatTxns
                      else repeatTxns)))"

text \<open>
  \<^verbatim>\<open>initRepeatTransactions(txn, bounds)\<close>, called with \<open>txn = this\<close> as every call of
  the repository does. \<open>bs\<close> is the store of the objects passed as bounds and \<open>b\<close> the
  identity of one of them.
\<close>

definition initRepeatTransactions ::
  "momentlib \<Rightarrow> (nat \<Rightarrow> bounds) \<Rightarrow> nat \<Rightarrow> transaction \<Rightarrow> error + expansion \<times> transaction" where
  "initRepeatTransactions L bs b this =
     (let txn = props this
      in if frequency txn = ''none'' then Inr (Single txn, this)
         else if stash_hit (transactionSeries this) txn b then
           Inr (Many (case transactionSeries this of None \<Rightarrow> [] | Some s \<Rightarrow> txns s), this)
         else (case expand L (bs b) txn of
                 Inl err \<Rightarrow> Inl err
               | Inr repeatTxns \<Rightarrow>
                   Inr (Many repeatTxns,
                        Node txn
                          (Some \<lparr>txns = repeatTxns, s_amount = amount txn, s_growth = growth txn,
                                  s_frequency = frequency txn, s_startDate = startDate txn,
                                  s_bounds = b\<rparr>)
                          (accumulator this) (children this))))"

section \<open>Gathering\<close>

text \<open>\<^verbatim>\<open>array.concat(v)\<close> appends an array's elements, and any other value itself.\<close>

definition concat_arg :: "expansion \<Rightarrow> txn_props list" where
  "concat_arg ex = (case ex of Single t \<Rightarrow> [t] | Many ts \<Rightarrow> ts)"

datatype gathered = Undefined | Array "txn_props list" | Object txn_props

text \<open>
  \<^verbatim>\<open>gatherTransactions(bounds)\<close> yields what the call returns, what it appends to
  the accumulator of its parent, and the updated \<open>this\<close>. \<open>gather_children\<close> is
  \<^verbatim>\<open>this.children.forEach(function(c) { c.gatherTransactions(bounds); })\<close>,
  threading the accumulator of \<open>this\<close>.
\<close>

fun gatherTransactions ::
    "momentlib \<Rightarrow> (nat \<Rightarrow> bounds) \<Rightarrow> nat \<Rightarrow> transaction \<Rightarrow>
     error + gathered \<times> txn_props list \<times> transaction"
  and gather_children ::
    "momentlib \<Rightarrow> (nat \<Rightarrow> bounds) \<Rightarrow> nat \<Rightarrow> transaction list \<Rightarrow> txn_props list \<Rightarrow>
     error + txn_props list \<times> transaction list" where
  "gatherTransactions L bs b (Node p st acc cs) =
     (if length cs = 0 \<and> parentTransaction p \<noteq> None then
        (case initRepeatTransactions L bs b (Node p st acc cs) of
           Inl err \<Rightarrow> Inl err
         | Inr (ex, this') \<Rightarrow> Inr (Undefined, concat_arg ex, this'))
      else if parentTransaction p \<noteq> None then
        (case gather_children L bs b cs acc of
           Inl err \<Rightarrow> Inl err
         | Inr (acc', cs') \<Rightarrow>
             (case initRepeatTransactions L bs b (Node p st acc' cs') of
                Inl err \<Rightarrow> Inl err
              | Inr (ex, this') \<Rightarrow>
                  Inr (Undefined, concat_arg ex,
                       Node (props this') (transactionSeries this') [] (children this'))))
      else if length cs > 0 then
        (case gather_children L bs b cs [] of
           Inl err \<Rightarrow> Inl err
         | Inr (acc', cs') \<Rightarrow> Inr (Array acc', [], Node p st acc' cs'))
      else if frequency p \<noteq> ''none'' then
        (case initRepeatTransactions L bs b (Node p st acc cs) of
           Inl err \<Rightarrow> Inl err
         | Inr (ex, this') \<Rightarrow>
             Inr (case ex of Single t \<Rightarrow> Object t | Many ts \<Rightarrow> Array ts, [], this'))
      else Inr (Object p, [], Node p st acc cs))"
| "gather_children L bs b [] acc = Inr (acc, [])"
| "gather_children L bs b (c # cs) acc =
     (case gatherTransactions L bs b c of
        Inl err \<Rightarrow> Inl err
      | Inr (r, appended, c') \<Rightarrow>
          (case gather_children L bs b cs (acc @ appended) of
             Inl err \<Rightarrow> Inl err
           | Inr (acc', cs') \<Rightarrow> Inr (acc', c' # cs')))"

section \<open>Valuation and paths\<close>

text \<open>
  The lodash chain \<^verbatim>\<open>groupBy(day).pairs().sortBy(date).map(...)\<close>: one pair of a
  day and the sum of the amounts of that day, by ascending day. An occurrence without
  a start date falls under the key of an invalid date.
\<close>

definition daily_values :: "txn_props list \<Rightarrow> error + (int \<times> rat) list" where
  "daily_values occs =
     (if list_ex (\<lambda>t. startDate t = None) occs then Inl OutsideModel
      else Inr (map (\<lambda>k. (k, lodash_sum (map amount (filter (\<lambda>t. startDate t = Some k) occs))))
                  (sort (remdups (concat (map (\<lambda>t. case startDate t of None \<Rightarrow> [] | Some k \<Rightarrow> [k])
                                            occs))))))"

text \<open>
  \<^verbatim>\<open>valueOnDate(date, bounds, gatheredTransactions)\<close>. Wrapping \<open>undefined\<close>, lodash
  sees an empty collection; wrapping a Transaction, it walks the object's own properties,
  and \<^verbatim>\<open>txn.startDate\<close> throws at the one that holds \<open>null\<close> (a Transaction is only
  returned by a node whose \<open>parentTransaction\<close> is \<open>null\<close>).
\<close>

definition valueOnDate ::
  "momentlib \<Rightarrow> dateval \<Rightarrow> nat \<Rightarrow> txn_props list option \<Rightarrow> (nat \<Rightarrow> bounds) \<times> transaction \<Rightarrow>
   error + rat \<times> (nat \<Rightarrow> bounds) \<times> transaction" where
  "valueOnDate L date b gatheredTransactions state =
     (let bs = (fst state)(b := (fst state b)\<lparr>b_endDate := date\<rparr>);
          this = snd state
      in case (case gatheredTransactions of
                 Some g \<Rightarrow> Inr (Array g, [], this)
               | None \<Rightarrow> gatherTransactions L bs b this) of
           Inl err \<Rightarrow> Inl err
         | Inr (g, appended, this') \<Rightarrow>
             (case g of
                Undefined \<Rightarrow> Inr (lodash_sum [], bs, this')
              | Object t \<Rightarrow> Inl TypeError
              | Array occs \<Rightarrow>
                  (case daily_values occs of
                     Inl err \<Rightarrow> Inl err
                   | Inr transactions \<Rightarrow>
                       Inr (lodash_sum (map (\<lambda>t. Some (snd t)) transactions), bs, this'))))"

record point =
  pt_value :: "rat option"
  pt_d :: int
  pt_x :: int
  pt_y :: rat

record keypoint =
  kp_count :: int
  kp_x :: int
  kp_date :: "int option"
  kp_value :: rat
  kp_type :: string

text \<open>
  The two detectors. \<^verbatim>\<open>start.add(n, 'days')\<close> changes the moment \<open>start\<close> itself
  and returns it, so \<open>start\<close> is a variable of the loop; the object \<open>point\<close> is built
  in every round, and \<^verbatim>\<open>toDate()\<close> hands it a copy of the date reached so far.
\<close>

function inflection_loop :: "point list \<Rightarrow> nat \<Rightarrow> int option \<Rightarrow> keypoint list \<Rightarrow> keypoint list" where
  "inflection_loop path i start accInf =
     (if i < length path then
        (let deltaPrime = js_sub (pt_y (path ! i)) (pt_y (path ! (i - 1)));
             deltaDPrime = js_sub (pt_y (path ! (i - 1))) (pt_y (path ! (i - 2)));
             start' = map_option (\<lambda>s. s + pt_x (path ! (i - 1))) start;
             point = \<lparr>kp_count = int i - 1, kp_x = pt_x (path ! (i - 1)), kp_date = start',
                      kp_value = pt_y (path ! (i - 1)), kp_type = []\<rparr>
         in if deltaPrime < 0 \<and> deltaDPrime > 0 then
              inflection_loop path (i + 1) start' (accInf @ [point\<lparr>kp_type := ''max''\<rparr>])
            else if deltaPrime > 0 \<and> deltaDPrime < 0 then
              inflection_loop path (i + 1) start' (accInf @ [point\<lparr>kp_type := ''min''\<rparr>])
            else inflection_loop path (i + 1) start' accInf)
      else accInf)"
  by pat_completeness auto
termination
  by (relation "measure (\<lambda>(path, i, start, accInf). length path - i)") auto

declare inflection_loop.simps [simp del]

definition getInflectionPoints :: "momentlib \<Rightarrow> point list \<Rightarrow> bounds \<Rightarrow> keypoint list" where
  "getInflectionPoints L path bnds = inflection_loop path 2 (moment L (b_startDate bnds)) []"

function zero_loop :: "point list \<Rightarrow> nat \<Rightarrow> int option \<Rightarrow> keypoint list \<Rightarrow> keypoint list" where
  "zero_loop path i start accZero =
     (if i < length path then
        (let start' = map_option (\<lambda>s. s + pt_x (path ! i)) start;
             point = \<lparr>kp_count = int i, kp_x = pt_x (path ! i), kp_date = start',
                      kp_value = pt_y (path ! i), kp_type = []\<rparr>
         in if pt_y (path ! i) > 0 \<and> pt_y (path ! (i - 1)) < 0 then
              zero_loop path (i + 1) start' (accZero @ [point\<lparr>kp_type := ''positive''\<rparr>])
            else if pt_y (path ! i) < 0 \<and> pt_y (path ! (i - 1)) > 0 then
              zero_loop path (i + 1) start' (accZero @ [point\<lparr>kp_type := ''negative''\<rparr>])
            else zero_loop path (i + 1) start' accZero)
      else accZero)"
  by pat_completeness auto
termination
  by (relation "measure (\<lambda>(path, i, start, accZero). length path - i)") auto

declare zero_loop.simps [simp del]

definition getZeroPoints :: "momentlib \<Rightarrow> point list \<Rightarrow> bounds \<Rightarrow> keypoint list" where
  "getZeroPoints L path bnds = zero_loop path 2 (moment L (b_startDate bnds)) []"

datatype keypoints = EmptyArray | KeyPoints (inflectionPts: "keypoint list") (zeroPts: "keypoint list")

definition getInflectionZeroPoints :: "momentlib \<Rightarrow> point list \<Rightarrow> bounds \<Rightarrow> keypoints" where
  "getInflectionZeroPoints L path bnds =
     KeyPoints (getInflectionPoints L path bnds) (getZeroPoints L path bnds)"

record path_result =
  path :: "point list"
  keyPoints :: keypoints

text \<open>The \<^verbatim>\<open>_.reduce\<close> that turns the daily values into the running balance.\<close>

fun balance :: "int \<Rightarrow> point list \<Rightarrow> (int \<times> rat) list \<Rightarrow> point list" where
  "balance start acc [] = acc"
| "balance start acc (k # ks) =
     balance start
       (acc @ [\<lparr>pt_value = Some (js_mul (- 1) (snd k)), pt_d = fst k, pt_x = fst k - start,
                 pt_y = js_add (if length acc > 0 then pt_y (last acc) else 0) (snd k)\<rparr>])
       ks"

text \<open>\<^verbatim>\<open>_.findIndex\<close>: the first index whose element satisfies the test, or -1.\<close>

fun findIndex :: "('a \<Rightarrow> bool) \<Rightarrow> 'a list \<Rightarrow> int" where
  "findIndex P [] = - 1"
| "findIndex P (a # as) =
     (if P a then 0 else (let r = findIndex P as in if r < 0 then - 1 else r + 1))"

text \<open>
  \<^verbatim>\<open>generatePath(bounds, gatheredTransactions)\<close>, for bounds whose two dates are
  Dates. Reading \<^verbatim>\<open>length\<close> of \<open>undefined\<close> throws; a Transaction has no
  \<^verbatim>\<open>length\<close> and is then walked by lodash as in \<open>valueOnDate\<close>.
\<close>

definition generatePath ::
  "momentlib \<Rightarrow> nat \<Rightarrow> txn_props list option \<Rightarrow> (nat \<Rightarrow> bounds) \<times> transaction \<Rightarrow>
   error + path_result \<times> transaction" where
  "generatePath L b gatheredTransactions state =
     (let bs = fst state; this = snd state
      in case (case gatheredTransactions of
                 Some g \<Rightarrow> Inr (Array g, [], this)
               | None \<Rightarrow> gatherTransactions L bs b this) of
           Inl err \<Rightarrow> Inl err
         | Inr (g, appended, this') \<Rightarrow>
             (case g of
                Undefined \<Rightarrow> Inl TypeError
              | Object t \<Rightarrow> Inl TypeError
              | Array occs \<Rightarrow>
                  if length occs = 0 then Inr (\<lparr>path = [], keyPoints = EmptyArray\<rparr>, this')
                  else (case (b_startDate (bs b), b_endDate (bs b), daily_values occs) of
                          (DateV s, DateV e, Inr daily) \<Rightarrow>
                            (let transactions = balance s [] daily;
                                 padded =
                                   (if pt_d (last transactions) < e then
                                      transactions @
                                        [\<lparr>pt_value = pt_value (last transactions), pt_d = e,
                                          pt_x = e - s, pt_y = pt_y (last transactions)\<rparr>]
                                    else transactions);
                                 startValueIdx = findIndex (\<lambda>t. pt_d t \<ge> s) padded;
                                 startValue =
                                   (if startValueIdx > 0 then
                                      \<lparr>pt_value = None, pt_d = s, pt_x = 0,
                                        pt_y = pt_y (padded ! nat startValueIdx)\<rparr>
                                    else \<lparr>pt_value = None, pt_d = s, pt_x = 0, pt_y = 0\<rparr>);
                                 sliced = (if startValueIdx > 0 then drop (nat startValueIdx) padded
                                           else padded);
                                 final = startValue # sliced
                             in Inr (\<lparr>path = final,
                                      keyPoints = getInflectionZeroPoints L final (bs b)\<rparr>, this'))
                        | _ \<Rightarrow> Inl OutsideModel)))"

section \<open>Scenarios\<close>

text \<open>
  \<^verbatim>\<open>setStartDates(transaction, startDate, setall)\<close>. The first assignment reads
  \<^verbatim>\<open>transaction.startDate\<close>, not \<^verbatim>\<open>self.startDate\<close>, so a call without a
  transaction throws; every child is called that way.
\<close>

definition setStartDates ::
  "transaction option \<Rightarrow> int \<Rightarrow> bool \<Rightarrow> transaction \<Rightarrow> error + transaction" where
  "setStartDates transaction_arg startDate_arg setall this =
     (case transaction_arg of
        None \<Rightarrow> Inl TypeError
      | Some (Node p st acc cs) \<Rightarrow>
          (let p' = (if date_lt (startDate p) (Some startDate_arg) \<and> setall
                     then p\<lparr>startDate := Some startDate_arg\<rparr>
                     else if \<not> setall then p\<lparr>startDate := Some startDate_arg\<rparr>
                     else p)
           in if length cs > 0 then Inl TypeError else Inr (Node p' st acc cs)))"

text \<open>
  \<^verbatim>\<open>cloneTransaction(transaction, divorceParent, newSeries)\<close>; \<open>uuid2\<close> is what the
  second \<^verbatim>\<open>generateUUID()\<close> returns when \<open>newSeries\<close> asks for it.
\<close>

definition cloneTransaction ::
  "nat \<times> string \<Rightarrow> string \<Rightarrow> transaction option \<Rightarrow> bool \<Rightarrow> bool \<Rightarrow> transaction \<Rightarrow> transaction" where
  "cloneTransaction alloc uuid2 transaction_arg divorceParent newSeries this =
     (let p = props (case transaction_arg of None \<Rightarrow> this | Some t \<Rightarrow> t)
      in case new_Transaction alloc
                (Some \<lparr>blob_growth = growth p, blob_description = description p,
                        blob_amount = amount p, blob_startDate = startDate p,
                        blob_endDate = endDate p, blob_frequency = Some (frequency p),
                        blob_transactionType = None, blob_series = None\<rparr>) of
           Node q st acc cs \<Rightarrow>
             Node (q\<lparr>parentTransaction := (if divorceParent then None else parentTransaction p),
                     series := (if newSeries then uuid2 else series p)\<rparr>) st acc cs)"

record scenario =
  sc_name :: string
  sc_startDate :: int
  transactions :: transaction
  baseTransaction :: nat

text \<open>
  \<^verbatim>\<open>new Scenario(startDate, name, blob, baseTransaction)\<close>. The constructor calls
  \<^verbatim>\<open>valueOnDate({startDate: null, endDate: initEndDate}, initEndDate)\<close>, and the
  parameters of \<open>valueOnDate\<close> are \<open>(date, bounds)\<close>: the plain object is the date and
  the Date \<open>initEndDate\<close> is the bounds. \<open>dref\<close> is the identity of that Date, an
  object with no \<open>startDate\<close> and no \<open>endDate\<close> of its own. The result is the
  scenario, the store and the base tree.
\<close>

definition new_Scenario ::
  "momentlib \<Rightarrow> nat \<times> string \<Rightarrow> nat \<times> string \<Rightarrow> nat \<Rightarrow> int \<Rightarrow> string \<Rightarrow> blob \<Rightarrow>
   (nat \<Rightarrow> bounds) \<times> transaction \<Rightarrow> error + scenario \<times> (nat \<Rightarrow> bounds) \<times> transaction" where
  "new_Scenario L alloc1 alloc2 dref startDate_arg name_arg blob state =
     (let root = new_Transaction alloc1 (Some blob);
          bs = (fst state)(dref := \<lparr>b_startDate = UndefinedV, b_endDate = UndefinedV\<rparr>)
      in case valueOnDate L PlainObject dref None (bs, snd state) of
           Inl err \<Rightarrow> Inl err
         | Inr (v, bs', base') \<Rightarrow>
             Inr (\<lparr>sc_name = name_arg, sc_startDate = startDate_arg,
                   transactions =
                     snd (addChild alloc2
                            \<lparr>blob_growth = Some 0,
                              blob_description = Some ''Scenario Initial Amount'',
                              blob_amount = Some v,
                              blob_startDate = Some startDate_arg,
                              blob_endDate = None,
                              blob_frequency = Some ''none'',
                              blob_transactionType = None,
                              blob_series = None\<rparr> root),
                   baseTransaction = ident (props base')\<rparr>, bs', base'))"

text \<open>
  \<^verbatim>\<open>cloneTransactionToScenario(transaction)\<close>: the clone, \<open>setStartDates\<close> on it
  with \<open>setall = true\<close>, and \<open>addChild\<close>, which constructs the child from the clone's
  properties. The result is \<^verbatim>\<open>this.transactions.children[length - 1]\<close> and the
  scenario.
\<close>

definition cloneTransactionToScenario ::
  "nat \<times> string \<Rightarrow> nat \<times> string \<Rightarrow> transaction \<Rightarrow> scenario \<Rightarrow> error + transaction \<times> scenario" where
  "cloneTransactionToScenario alloc1 alloc2 transaction_arg this =
     (let clone = cloneTransaction alloc1 [] None True False transaction_arg
      in case setStartDates (Some clone) (sc_startDate this) True clone of
           Inl err \<Rightarrow> Inl err
         | Inr clone' \<Rightarrow>
             (let root = snd (addChild alloc2 (as_blob (props clone')) (transactions this))
              in Inr (last (children root), this\<lparr>transactions := root\<rparr>)))"

section \<open>The specification's resolved amount\<close>

text \<open>
  The specification's words for \<^verbatim>\<open>resolveAmount()\<close>, without the side effect: if the
  node has children, the sum of each child's resolved amount, recursively; otherwise the
  stored leaf amount.
\<close>

fun resolveAmount_spec :: "transaction \<Rightarrow> rat option" where
  "resolveAmount_spec (Node p st acc cs) =
     (if cs \<noteq> [] then Some (lodash_sum (map resolveAmount_spec cs)) else amount p)"

section \<open>Reading the results\<close>

text \<open>
  The closed statements below are evaluated with a library whose current day is day 100
  and whose reading of a plain object is the argument; none of them walks a range by
  months.
\<close>

definition example_lib :: "int option \<Rightarrow> momentlib" where
  "example_lib obj = \<lparr>now_day = 100, plain_object_day = obj, by_months = (\<lambda>s e. [])\<rparr>"

text \<open>
  The cumulative value a path shows on a day: the \<open>y\<close> of the last point that is not
  after that day.
\<close>

definition path_value_on :: "point list \<Rightarrow> int \<Rightarrow> rat option" where
  "path_value_on ps day =
     (case filter (\<lambda>p. pt_x p \<le> day) ps of
        [] \<Rightarrow> None
      | q # qs \<Rightarrow> Some (pt_y (last (q # qs))))"

section \<open>Construction and aggregation\<close>

lemma getAmount_fst: "fst (getAmount t) = resolveAmount_spec t"
proof (induction t)
  case (Node p st acc cs)
  then have h: "map (\<lambda>c. fst (getAmount c)) cs = map resolveAmount_spec cs"
    by (intro map_cong) auto
  show ?case
    by (simp add: Let_def comp_def h)
qed

lemma getAmount_stored: "amount (props (snd (getAmount t))) = fst (getAmount t)"
  by (cases t) (simp add: Let_def)

lemma getAmount_children:
  "children (snd (getAmount t)) = map (\<lambda>c. snd (getAmount c)) (children t)"
  by (cases t) (simp add: Let_def)

text \<open>
  C10. The constructor turns a falsy field into its default: a definition whose amount
  is 0 gives a node whose amount is \<open>null\<close>, one whose growth is 0 a node whose growth
  is \<open>null\<close>, and the node is the very node that the definition without the field
  gives.
\<close>

theorem new_Transaction_zero_is_absent:
  "amount (props (new_Transaction alloc (Some (b\<lparr>blob_amount := Some 0\<rparr>)))) = None \<and>
   growth (props (new_Transaction alloc (Some (b\<lparr>blob_growth := Some 0\<rparr>)))) = None \<and>
   new_Transaction alloc (Some (b\<lparr>blob_amount := Some 0\<rparr>)) =
     new_Transaction alloc (Some (b\<lparr>blob_amount := None\<rparr>)) \<and>
   new_Transaction alloc (Some (b\<lparr>blob_growth := Some 0\<rparr>)) =
     new_Transaction alloc (Some (b\<lparr>blob_growth := None\<rparr>))"
  by (simp add: new_Transaction_def truthy_num_def)

text \<open>
  C2. For every node, \<open>getAmount\<close> returns the stored amount of a node without
  children and the sum of the amounts its children resolve to otherwise, which is the
  specification's recursive sum; the amount stored afterwards is the value returned; and
  for a node with children the call does not depend on the amount that was stored
  before.
\<close>

theorem getAmount_resolves:
  "fst (getAmount t) =
     (if children t = [] then amount (props t)
      else Some (lodash_sum (map (\<lambda>c. fst (getAmount c)) (children t)))) \<and>
   fst (getAmount t) = resolveAmount_spec t \<and>
   amount (props (snd (getAmount t))) = fst (getAmount t) \<and>
   (children t \<noteq> [] \<longrightarrow>
      getAmount (Node ((props t)\<lparr>amount := a\<rparr>) (transactionSeries t) (accumulator t)
                   (children t)) = getAmount t)"
proof -
  obtain p st acc cs where t: "t = Node p st acc cs"
    by (cases t)
  have returned: "fst (getAmount t) =
      (if children t = [] then amount (props t)
       else Some (lodash_sum (map (\<lambda>c. fst (getAmount c)) (children t))))"
    by (simp add: t Let_def comp_def)
  have overwritten: "children t \<noteq> [] \<longrightarrow>
      getAmount (Node ((props t)\<lparr>amount := a\<rparr>) (transactionSeries t) (accumulator t)
                   (children t)) = getAmount t"
    by (simp add: t Let_def)
  from returned overwritten getAmount_fst [of t] getAmount_stored [of t]
  show ?thesis
    by (intro conjI)
qed

theorem getAmount_resolves_witness:
  "(let leaf7 = new_Transaction (1, ''a'') (Some (empty_blob\<lparr>blob_amount := Some 7\<rparr>));
        leaf8 = new_Transaction (2, ''b'') (Some (empty_blob\<lparr>blob_amount := Some 8\<rparr>));
        branch = Node (props (new_Transaction (0, ''r'') None)) None [] [leaf7, leaf8]
    in children branch \<noteq> [] \<and>
       getAmount (Node ((props branch)\<lparr>amount := Some 99\<rparr>) None [] [leaf7, leaf8])
         = getAmount branch \<and>
       fst (getAmount branch) = Some 15 \<and>
       amount (props (snd (getAmount branch))) = Some 15)"
  using getAmount_resolves
    [of "Node (props (new_Transaction (0, ''r'') None)) None []
           [new_Transaction (1, ''a'') (Some (empty_blob\<lparr>blob_amount := Some 7\<rparr>)),
            new_Transaction (2, ''b'') (Some (empty_blob\<lparr>blob_amount := Some 8\<rparr>))]"
        "Some 99"]
  by code_simp

text \<open>
  C1. A root, a child added to the root with amount 5, and a child added to that child
  with amount 10. The new child refers to its parent, is one level deeper and is the
  last child, and its parent's amount is the sum 10; the root, an ancestor of the new
  child, keeps the amount 5, while its children resolve to 10.
\<close>

theorem addChild_leaves_grandparent_stale:
  "(let root = new_Transaction (0, ''r'') None;
        root1 = snd (addChild (1, ''a'') (empty_blob\<lparr>blob_amount := Some 5\<rparr>) root);
        root2 = at_node 1
                  (\<lambda>a. snd (addChild (2, ''b'') (empty_blob\<lparr>blob_amount := Some 10\<rparr>) a))
                  root1;
        node = hd (children root2);
        newChild = last (children node)
    in parentTransaction (props newChild) = Some (ident (props node)) \<and>
       depth (props newChild) = depth (props node) + 1 \<and>
       amount (props newChild) = Some 10 \<and>
       amount (props node) = Some 10 \<and>
       amount (props root2) = Some 5 \<and>
       resolveAmount_spec root2 = Some 10)"
  by code_simp

section \<open>Evaluation\<close>

lemma fl_0: "fl 0 = 0"
  by (simp add: fl_def)

lemma fl_vals:
  "fl 1 = 1" "fl 3 = 3" "fl 10 = 10" "fl 20 = 20" "fl 30 = 30" "fl 40 = 40" "fl 50 = 50"
  "fl (- 1) = - 1" "fl (- 50) = - 50"
  by code_simp+

lemmas ev = valueOnDate_def Let_def initRepeatTransactions_def stash_hit_def expand_def
  moment_def generateRepeatDates_def walk_def by_string.simps growth_loop.simps js_add_def
  js_mul_def js_div_def js_sub_def to_number_def concat_arg_def daily_values_def
  lodash_sum_def fl_0 fl_vals example_lib_def by_range_def new_Transaction_def addChild_def
  setAmount_def empty_blob_def truthy_num_def truthy_str_def generatePath_def
  getInflectionZeroPoints_def getInflectionPoints_def getZeroPoints_def
  inflection_loop.simps zero_loop.simps new_Scenario_def path_value_on_def
  cloneTransactionToScenario_def cloneTransaction_def setStartDates_def as_blob_def
  date_lt_def

section \<open>Recurrence: errors, growth and the stash\<close>











text \<open>
  Once an expansion has been returned, the same call returns the same occurrences and
  leaves the node as it is, whatever the store of bounds holds by then: the test reads
  the identity \<open>b\<close> only.
\<close>

lemma initRepeatTransactions_again:
  assumes "frequency (props this) \<noteq> ''none''"
    and "initRepeatTransactions L bs b this = Inr (Many occs, this')"
  shows "initRepeatTransactions L bs' b this' = Inr (Many occs, this')"
proof (cases "stash_hit (transactionSeries this) (props this) b")
  case True
  with assms show ?thesis
    by (auto simp add: initRepeatTransactions_def Let_def)
next
  case False
  with assms show ?thesis
    by (auto simp add: initRepeatTransactions_def stash_hit_def Let_def split: sum.splits)
qed

text \<open>
  C3. A root with one weekly child of amount 10 from day 0, and one bounds object that
  ends on day 14. \<open>valueOnDate\<close> for day 14 returns 30. \<open>valueOnDate\<close> for day 28 with
  the same bounds object sets its \<open>endDate\<close> to day 28 and returns 30 again: the child
  returns the stashed occurrences of days 0, 7 and 14, where an expansion for these
  bounds has the five occurrences up to day 28, and the value on a tree without a stash
  is 50.
\<close>

theorem stash_is_stale_after_bounds_change:
  "(let root = snd (addChild (1, ''a'')
                 (empty_blob\<lparr>blob_amount := Some 10, blob_startDate := Some 0,
                    blob_frequency := Some ''week''\<rparr>)
                 (new_Transaction (0, ''r'') None));
        bs = (\<lambda>b. \<lparr>b_startDate = DateV 0, b_endDate = DateV 14\<rparr>)
    in case valueOnDate (example_lib None) (DateV 14) 0 None (bs, root) of
         Inl err \<Rightarrow> False
       | Inr (v1, bs1, root1) \<Rightarrow>
           (case valueOnDate (example_lib None) (DateV 28) 0 None (bs1, root1) of
              Inl err \<Rightarrow> False
            | Inr (v2, bs2, root2) \<Rightarrow>
                v1 = 30 \<and> v2 = 30 \<and> b_endDate (bs2 0) = DateV 28 \<and>
                map_sum id fst (valueOnDate (example_lib None) (DateV 28) 0 None (bs, root))
                  = Inr 50 \<and>
                map_sum id (\<lambda>r. map startDate (concat_arg (fst r)))
                  (initRepeatTransactions (example_lib None) bs2 0 (hd (children root1))) =
                  Inr [Some 0, Some 7, Some 14] \<and>
                map_sum id (map startDate)
                  (expand (example_lib None) (bs2 0) (props (hd (children root1)))) =
                  Inr [Some 0, Some 7, Some 14, Some 21, Some 28]))"
  by (simp add: ev)

section \<open>Paths and key points\<close>


text \<open>
  C6. Bounds that start on day 100. On the path with \<open>x = 0, 1, 2, 3\<close> and
  \<open>y = 0, 1, 0, 1\<close> the maximum at \<open>x = 1\<close> and the minimum at \<open>x = 2\<close> are flagged
  with their values, and the minimum is dated day 103, which is day 100 plus the \<open>x\<close> of
  both points the loop has visited, not day 102. On \<open>y = 1, 1, -1, 1\<close> the crossings
  are flagged at the point after the change of sign, and the second is dated day 105,
  not day 103.
\<close>

theorem keypoint_dates_accumulate:
  "(let bnds = \<lparr>b_startDate = DateV 100, b_endDate = DateV 200\<rparr>;
        pt = (\<lambda>x y. \<lparr>pt_value = None, pt_d = 100 + x, pt_x = x, pt_y = y\<rparr>)
    in map (\<lambda>k. (kp_type k, kp_count k, kp_value k, kp_x k, kp_date k))
         (getInflectionPoints (example_lib None) [pt 0 0, pt 1 1, pt 2 0, pt 3 1] bnds) =
         [(''max'', 1, 1, 1, Some 101), (''min'', 2, 0, 2, Some 103)] \<and>
       map (\<lambda>k. (kp_type k, kp_count k, kp_value k, kp_x k, kp_date k))
         (getZeroPoints (example_lib None) [pt 0 1, pt 1 1, pt 2 (- 1), pt 3 1] bnds) =
         [(''negative'', 2, - 1, 2, Some 102), (''positive'', 3, 1, 3, Some 105)])"
  by (simp add: ev)

section \<open>Scenarios: the fork and the clone\<close>

text \<open>
  C7. A base tree with one weekly child of amount 10 from day 0, forked on day 15. The
  value of the base tree through day 14 is 30. The scenario's tree has one leaf named
  Scenario Initial Amount and dated day 15; its amount is 50 when moment reads the plain
  object as day 28, and \<open>null\<close> when it reads it as an invalid date.
\<close>

theorem scenario_initial_amount_ignores_fork_date:
  "(let base = snd (addChild (1, ''a'')
                 (empty_blob\<lparr>blob_amount := Some 10, blob_startDate := Some 0,
                    blob_frequency := Some ''week''\<rparr>)
                 (new_Transaction (0, ''r'') None));
        bs = (\<lambda>b. \<lparr>b_startDate = NullV, b_endDate = NullV\<rparr>);
        leaves = (\<lambda>r. case r of Inl err \<Rightarrow> []
                        | Inr (sc, bs', base') \<Rightarrow>
                            map (\<lambda>c. (description (props c), startDate (props c),
                                       amount (props c)))
                              (children (transactions sc)))
    in map_sum id fst (valueOnDate (example_lib None) (DateV 14) 0 None (bs, base)) = Inr 30 \<and>
       leaves (new_Scenario (example_lib (Some 28)) (10, ''s'') (11, ''t'') 5 15 ''fork''
                 empty_blob (bs, base)) =
         [(Some ''Scenario Initial Amount'', Some 15, Some 50)] \<and>
       leaves (new_Scenario (example_lib None) (10, ''s'') (11, ''t'') 5 15 ''fork''
                 empty_blob (bs, base)) =
         [(Some ''Scenario Initial Amount'', Some 15, None)])"
  by (simp add: ev)

lemma truthy_num_idem: "truthy_num (truthy_num v) = truthy_num v"
  by (simp add: truthy_num_def split: option.splits)

lemma truthy_str_idem: "truthy_str (truthy_str v) = truthy_str v"
  by (simp add: truthy_str_def split: option.splits)

lemma truthy_str_None: "truthy_str None = None"
  by (simp add: truthy_str_def)

lemma truthy_str_Some: "truthy_str (Some s) = (if s = [] then None else Some s)"
  by (simp add: truthy_str_def)

text \<open>
  C8, as the code has it. For every transaction and scenario the call returns, and the
  node it returns is the last child of the scenario's tree: a node with the identity the
  allocation gave, one level below the scenario's root and referring to it, with the
  series of the original (when that is not the empty string), its description, amount,
  growth, frequency and end date as the constructor takes them, and the type
  \<open>plain\<close>. Its start date is the scenario's when the original's is earlier (an absent
  one counting as day 0), and the original's otherwise.
\<close>

theorem cloneTransactionToScenario_result:
  "\<exists>child sc'.
     cloneTransactionToScenario alloc1 alloc2 t sc = Inr (child, sc') \<and>
     last (children (transactions sc')) = child \<and>
     props child =
       \<lparr>ident = fst alloc2,
        depth = depth (props (transactions sc)) + 1,
        growth = truthy_num (growth (props t)),
        description = truthy_str (description (props t)),
        amount = truthy_num (amount (props t)),
        startDate = (if date_lt (startDate (props t)) (Some (sc_startDate sc))
                     then Some (sc_startDate sc) else startDate (props t)),
        endDate = endDate (props t),
        frequency = (if frequency (props t) = [] then ''none'' else frequency (props t)),
        transactionType = ''plain'',
        series = (if series (props t) = [] then snd alloc2 else series (props t)),
        parentTransaction = Some (ident (props (transactions sc)))\<rparr>"
  by (cases "transactions sc")
     (simp add: cloneTransactionToScenario_def cloneTransaction_def new_Transaction_def
        setStartDates_def addChild_def setAmount_def as_blob_def Let_def
        truthy_num_idem truthy_str_idem truthy_str_Some truthy_str_None)

text \<open>
  The theorem at a scenario that starts on day 10: a transaction of day 5 is cloned to
  day 10, one of day 20 keeps day 20.
\<close>

theorem cloneTransactionToScenario_result_witness:
  "(let sc = \<lparr>sc_name = ''fork'', sc_startDate = 10,
               transactions = new_Transaction (10, ''s'') None, baseTransaction = 0\<rparr>;
        early = new_Transaction (1, ''a'')
                  (Some (empty_blob\<lparr>blob_amount := Some 7, blob_startDate := Some 5\<rparr>));
        late = new_Transaction (2, ''b'')
                  (Some (empty_blob\<lparr>blob_amount := Some 7, blob_startDate := Some 20\<rparr>))
    in map_sum id (\<lambda>r. (ident (props (fst r)), series (props (fst r)),
                          parentTransaction (props (fst r)), startDate (props (fst r))))
         (cloneTransactionToScenario (20, ''c'') (21, ''d'') early sc) =
         Inr (21, ''a'', Some 10, Some 10) \<and>
       map_sum id (\<lambda>r. (ident (props (fst r)), series (props (fst r)),
                          parentTransaction (props (fst r)), startDate (props (fst r))))
         (cloneTransactionToScenario (20, ''c'') (21, ''d'') late sc) =
         Inr (21, ''b'', Some 10, Some 20))"
  using cloneTransactionToScenario_result
    [of "(20, ''c'')" "(21, ''d'')"
        "new_Transaction (1, ''a'')
           (Some (empty_blob\<lparr>blob_amount := Some 7, blob_startDate := Some 5\<rparr>))"
        "\<lparr>sc_name = ''fork'', sc_startDate = 10,
          transactions = new_Transaction (10, ''s'') None, baseTransaction = 0\<rparr>"]
  by (simp add: ev)

text \<open>
  C8 as stated fails on a base tree whose child of day 20 has a child of its own, forked
  on day 10: the clone of the child of day 20 keeps the start date day 20, and it has no
  children.
\<close>

theorem cloneTransactionToScenario_counterexample:
  "(let base = at_node 1
                 (\<lambda>a. snd (addChild (2, ''k'')
                    (empty_blob\<lparr>blob_amount := Some 3, blob_startDate := Some 25\<rparr>) a))
                 (snd (addChild (1, ''a'')
                    (empty_blob\<lparr>blob_amount := Some 7, blob_startDate := Some 20\<rparr>)
                    (new_Transaction (0, ''r'') None)));
        bs = (\<lambda>b. \<lparr>b_startDate = NullV, b_endDate = NullV\<rparr>)
    in case new_Scenario (example_lib None) (10, ''s'') (11, ''t'') 5 10 ''fork'' empty_blob
              (bs, base) of
         Inl err \<Rightarrow> False
       | Inr (sc, bs', base') \<Rightarrow>
           (case cloneTransactionToScenario (20, ''c'') (21, ''d'') (hd (children base')) sc of
              Inl err \<Rightarrow> False
            | Inr (child, sc') \<Rightarrow>
                sc_startDate sc = 10 \<and>
                startDate (props (hd (children base'))) = Some 20 \<and>
                startDate (props child) = Some 20 \<and>
                length (children (hd (children base'))) = 1 \<and>
                children child = []))"
  by (simp add: ev)

end
